theory Spec2Isabelle
  imports Main
begin

section \<open>Errors and the error classifier (internal/eventstore/v3/push.go)\<close>

text \<open>
  A Go \<open>error\<close> value that is not nil. \<open>errors.As\<close> walks the chain an error wraps and
  stops at the first error that has the method \<open>SQLState()\<close>:
  \<^item> \<open>PlainError msg\<close> has no such method and wraps nothing;
  \<^item> \<open>SQLStateError code\<close> is a driver error (pgconn.PgError, lib/pq) whose \<open>SQLState()\<close>
    is \<open>code\<close>;
  \<^item> \<open>WrapError msg e\<close> has no such method and unwraps to \<open>e\<close>;
  \<^item> \<open>ThrowInternal e id msg\<close> is the value of \<open>errs.ThrowInternal(e, id, msg)\<close>, which
    keeps \<open>e\<close> as its parent.
\<close>

datatype error =
    PlainError string
  | SQLStateError string
  | WrapError string error
  | ThrowInternal error string string

fun errorsAs :: "error \<Rightarrow> string option" where
  "errorsAs (PlainError msg) = None"
| "errorsAs (SQLStateError code) = Some code"
| "errorsAs (WrapError msg e) = errorsAs e"
| "errorsAs (ThrowInternal e ident msg) = errorsAs e"

definition errCode :: "error \<Rightarrow> string" where
  "errCode err = (case errorsAs err of Some code \<Rightarrow> code | None \<Rightarrow> [])"

definition errIsRetryable :: "error \<Rightarrow> bool" where
  "errIsRetryable err = (let code = errCode err in code = ''CR000'' \<or> code = ''40001'')"

section \<open>Data of the push pipeline\<close>

text \<open>
  \<open>eventstore.Aggregate\<close> with the five fields \<open>mapCommands\<close> reads from it, a command
  (the interface \<open>eventstore.Command\<close>: its aggregate, creator, type and payload) and the
  \<open>event\<close> struct with the fields \<open>mapCommands\<close> and \<open>insertEvents\<close> read and write.
  Building an event can fail (\<open>mapCommands\<close> returns the error of \<open>commandToEvent\<close>);
  the one fallible step is obtaining the serialised payload, so a command carries what
  serialising its payload gives: the bytes, or the error.
\<close>

type_synonym timestamp = int

record aggregate =
  InstanceID :: string
  ResourceOwner :: string
  aggType :: string
  aggID :: string
  Version :: string

record command =
  cmdAggregate :: aggregate
  cmdCreator :: string
  cmdType :: string
  cmdPayload :: "error + string"

record event =
  evAggregate :: aggregate
  evCreator :: string
  evType :: string
  evPayload :: string
  evSequence :: nat
  createdAt :: timestamp

text \<open>
  Modelled from the spec: the struct \<open>latestSequence\<close> is declared outside the given
  sources. It is the spec's Sequence Baseline: an Aggregate Reference with the highest
  sequence number stored for it, a non-negative integer (so \<open>sequence.sequence++\<close> is
  \<open>+ 1\<close> on \<open>nat\<close>).
\<close>

record latestSequence =
  lsAggregate :: aggregate
  lsSequence :: nat

text \<open>The zero \<open>time.Time\<close> a fresh event holds in \<open>createdAt\<close>.\<close>

definition zeroTime :: timestamp where
  "zeroTime = 0"

text \<open>The values \<open>mapCommands\<close> appends to \<open>args\<close> (Go's \<open>[]any\<close>).\<close>

datatype arg = ArgString string | ArgPayload string | ArgSequence nat

text \<open>
  What a Go function of this file does: it returns its values with a nil error, returns
  an error, or panics.
\<close>

datatype 'a result = Returned 'a | Errored error | Panic

section \<open>The sequence assigner: \<open>mapCommands\<close>\<close>

text \<open>
  Modelled from the spec: \<open>searchSequenceByCommand\<close> is not in the given sources. The
  spec looks up the running counter of the command's Aggregate Reference among the
  baselines; the result is the position of the first baseline of that aggregate (the
  pointer the Go function returns), or \<open>None\<close> for nil.
\<close>

fun searchSequence :: "latestSequence list \<Rightarrow> aggregate \<Rightarrow> nat option" where
  "searchSequence [] a = None"
| "searchSequence (s # sequences) a =
     (if lsAggregate s = a then Some 0
      else map_option Suc (searchSequence sequences a))"

definition searchSequenceByCommand :: "latestSequence list \<Rightarrow> command \<Rightarrow> nat option" where
  "searchSequenceByCommand sequences command = searchSequence sequences (cmdAggregate command)"

text \<open>
  Modelled from the spec: \<open>commandToEvent\<close> is not in the given sources. The spec's
  event has the command's aggregate, creator, type and payload and the counter's
  incremented value as its sequence; its timestamp is set later, by \<open>insertEvents\<close>.
\<close>

definition commandToEvent :: "latestSequence \<Rightarrow> command \<Rightarrow> error + event" where
  "commandToEvent sequence command =
     (case cmdPayload command of
        Inl err \<Rightarrow> Inl err
      | Inr bytes \<Rightarrow>
          Inr \<lparr> evAggregate = cmdAggregate command,
                evCreator = cmdCreator command,
                evType = cmdType command,
                evPayload = bytes,
                evSequence = lsSequence sequence,
                createdAt = zeroTime \<rparr>)"

definition argsPerCommand :: nat where
  "argsPerCommand = 9"

text \<open>\<open>%d\<close> of \<open>fmt.Sprintf\<close> on a non-negative int.\<close>

function itoa :: "nat \<Rightarrow> string" where
  "itoa n = (if n < 10 then [''0123456789'' ! n]
             else itoa (n div 10) @ [''0123456789'' ! (n mod 10)])"
  by pat_completeness auto
termination
  by (relation "measure id") auto

declare itoa.simps [simp del]

text \<open>\<open>strings.Join(elems, sep)\<close>.\<close>

fun join :: "string list \<Rightarrow> string \<Rightarrow> string" where
  "join [] sep = []"
| "join [x] sep = x"
| "join (x # y # ys) sep = x @ sep @ join (y # ys) sep"

definition placeHolder :: "nat \<Rightarrow> string" where
  "placeHolder i =
     ''($'' @ join (map (\<lambda>k. itoa (i * argsPerCommand + k)) [1, 2, 3, 4, 5, 6, 7, 8, 9]) '', $''
       @ '')''"

definition eventArgs :: "event \<Rightarrow> arg list" where
  "eventArgs e =
     [ArgString (InstanceID (evAggregate e)),
      ArgString (ResourceOwner (evAggregate e)),
      ArgString (aggType (evAggregate e)),
      ArgString (aggID (evAggregate e)),
      ArgString (Version (evAggregate e)),
      ArgString (evCreator e),
      ArgString (evType e),
      ArgPayload (evPayload e),
      ArgSequence (evSequence e)]"

text \<open>
  The loop of \<open>mapCommands\<close> from index \<open>i\<close> on, over the commands still to map. The
  baselines are updated in place in Go, so the loop passes them on and returns them
  beside its result. \<open>events\<close> and \<open>placeHolders\<close> are filled at index \<open>i\<close> in
  increasing order, which the model writes as appending.
  The \<open>Panic\<close> of the logger does not return: the \<open>return\<close> after it is never reached.
\<close>

fun mapCommandsLoop ::
  "nat \<Rightarrow> command list \<Rightarrow> latestSequence list \<Rightarrow> event list \<Rightarrow> string list \<Rightarrow> arg list
    \<Rightarrow> (event list \<times> string list \<times> arg list) result \<times> latestSequence list" where
  "mapCommandsLoop i [] sequences events placeHolders args =
     (Returned (events, placeHolders, args), sequences)"
| "mapCommandsLoop i (command # commands) sequences events placeHolders args =
     (case searchSequenceByCommand sequences command of
        None \<Rightarrow> (Panic, sequences)
      | Some j \<Rightarrow>
          (let sequences' = sequences[j := (sequences ! j)\<lparr>lsSequence := lsSequence (sequences ! j) + 1\<rparr>]
           in case commandToEvent (sequences' ! j) command of
                Inl err \<Rightarrow> (Errored err, sequences')
              | Inr e \<Rightarrow>
                  mapCommandsLoop (i + 1) commands sequences'
                    (events @ [e]) (placeHolders @ [placeHolder i]) (args @ eventArgs e)))"

definition mapCommands ::
  "command list \<Rightarrow> latestSequence list
    \<Rightarrow> (event list \<times> string list \<times> arg list) result \<times> latestSequence list" where
  "mapCommands commands sequences = mapCommandsLoop 0 commands sequences [] [] []"

section \<open>The transaction as the pipeline sees it\<close>

text \<open>
  The calls \<open>Push\<close> and \<open>insertEvents\<close> make on the database client and the
  transaction, in the order they are made.
\<close>

datatype call =
    Begin
  | LatestSequences
  | ExecContext string
  | QueryContext string "arg list"
  | HandleUniqueConstraints
  | Commit
  | Rollback

text \<open>
  \<open>*sql.Rows\<close> of the insert: what each \<open>Next\<close>/\<open>Scan\<close> of a row gives (the timestamp
  scanned, or the error of \<open>Scan\<close>), and \<open>rows.Err()\<close> once \<open>Next\<close> is false.
\<close>

record rows =
  scans :: "(error + timestamp) list"
  rowsErr :: "error option"

text \<open>
  The database and the collaborators of \<open>Push\<close> that are not in the given sources
  (\<open>latestSequences\<close>, \<open>handleUniqueConstraints\<close>) are parameters: each answer may depend
  on every call made before it. \<open>pushStmt\<close> is \<open>fmt.Sprintf(pushStmt, _)\<close> on the text of
  the embedded file push.sql.
\<close>

record backend =
  clientBegin :: "error option"
  latestSequences :: "call list \<Rightarrow> command list \<Rightarrow> error + latestSequence list"
  handleUniqueConstraints :: "call list \<Rightarrow> command list \<Rightarrow> error option"
  execContext :: "call list \<Rightarrow> string \<Rightarrow> error option"
  queryContext :: "call list \<Rightarrow> string \<Rightarrow> arg list \<Rightarrow> error + rows"
  commit :: "call list \<Rightarrow> error option"
  rollback :: "call list \<Rightarrow> error option"
  pushStmt :: "string \<Rightarrow> string"

section \<open>The batch insert executor: \<open>insertEvents\<close>\<close>

definition maxRetries :: nat where
  "maxRetries = 5"

text \<open>
  How the retry loop ends: \<open>insertEvents\<close> returns from inside it (the save-point could
  not be set), or the loop is left with the variables \<open>rows\<close> and \<open>err\<close> as they are.
\<close>

datatype loopEnd = LoopReturn error | LoopLeft "rows option" "error option"

function insertLoop ::
  "backend \<Rightarrow> string \<Rightarrow> arg list \<Rightarrow> nat \<Rightarrow> rows option \<Rightarrow> error option \<Rightarrow> call list
    \<Rightarrow> loopEnd \<times> call list" where
  "insertLoop db stmt args i rows err tr =
     (if i < maxRetries then
        (case execContext db tr ''SAVEPOINT insert'' of
           Some e \<Rightarrow>
             (LoopReturn (ThrowInternal e ''V3-gd8jZ'' ''Errors.Internal''),
              tr @ [ExecContext ''SAVEPOINT insert''])
         | None \<Rightarrow>
             (case queryContext db (tr @ [ExecContext ''SAVEPOINT insert'']) stmt args of
                Inl e \<Rightarrow>
                  (if errIsRetryable e then
                     insertLoop db stmt args (i + 1) None
                       (execContext db
                          (tr @ [ExecContext ''SAVEPOINT insert'', QueryContext stmt args])
                          ''ROLLBACK TO SAVEPOINT insert'')
                       (tr @ [ExecContext ''SAVEPOINT insert'', QueryContext stmt args,
                              ExecContext ''ROLLBACK TO SAVEPOINT insert''])
                   else
                     (LoopLeft None (Some e),
                      tr @ [ExecContext ''SAVEPOINT insert'', QueryContext stmt args]))
              | Inr r \<Rightarrow>
                  (LoopLeft (Some r)
                     (execContext db
                        (tr @ [ExecContext ''SAVEPOINT insert'', QueryContext stmt args])
                        ''RELEASE SAVEPOINT insert''),
                   tr @ [ExecContext ''SAVEPOINT insert'', QueryContext stmt args,
                         ExecContext ''RELEASE SAVEPOINT insert''])))
      else (LoopLeft rows err, tr))"
  by pat_completeness auto
termination
  by (relation "measure (\<lambda>(db, stmt, args, i, rows, err, tr). maxRetries - i)") auto

declare insertLoop.simps [simp del]

text \<open>
  The scan loop \<open>for i := 0; rows.Next(); i++\<close>: \<open>events[i]\<close> with \<open>i\<close> out of range
  panics, an error of \<open>Scan\<close> is returned, a timestamp is stored in \<open>events[i]\<close>.
\<close>

fun scanRows :: "(error + timestamp) list \<Rightarrow> nat \<Rightarrow> event list \<Rightarrow> event list result" where
  "scanRows [] i events = Returned events"
| "scanRows (r # rs) i events =
     (if length events \<le> i then Panic
      else case r of
             Inl err \<Rightarrow> Errored err
           | Inr t \<Rightarrow> scanRows rs (i + 1) (events[i := (events ! i)\<lparr>createdAt := t\<rparr>]))"

text \<open>
  \<open>insertEvents\<close>, with the calls made so far. When the loop is left with a nil \<open>err\<close>
  and a nil \<open>rows\<close>, \<open>rows.Next()\<close> dereferences the nil pointer: a panic.
\<close>

definition insertEvents ::
  "backend \<Rightarrow> latestSequence list \<Rightarrow> command list \<Rightarrow> call list \<Rightarrow> event list result \<times> call list" where
  "insertEvents db sequences commands tr =
     (case fst (mapCommands commands sequences) of
        Panic \<Rightarrow> (Panic, tr)
      | Errored err \<Rightarrow> (Errored err, tr)
      | Returned (events, placeHolders, args) \<Rightarrow>
          (case insertLoop db (pushStmt db (join placeHolders '', '')) args 0 None None tr of
             (LoopReturn err, tr') \<Rightarrow> (Errored err, tr')
           | (LoopLeft rows err, tr') \<Rightarrow>
               (case err of
                  Some e \<Rightarrow> (Errored e, tr')
                | None \<Rightarrow>
                    (case rows of
                       None \<Rightarrow> (Panic, tr')
                     | Some r \<Rightarrow>
                         (case scanRows (scans r) 0 events of
                            Panic \<Rightarrow> (Panic, tr')
                          | Errored e \<Rightarrow> (Errored e, tr')
                          | Returned events' \<Rightarrow>
                              (case rowsErr r of
                                 Some e \<Rightarrow> (Errored e, tr')
                               | None \<Rightarrow> (Returned events', tr')))))))"

section \<open>The push orchestrator: \<open>Push\<close>\<close>

text \<open>
  What \<open>Push\<close> gives its caller: the two values it returns (the events, nil on an
  error path, and the error, nil when there is none), or a panic.
\<close>

datatype pushResult = PushReturn "event list option" "error option" | PushPanic

text \<open>
  The deferred function of \<open>Push\<close>, run when the body returns \<open>(events, err)\<close>: with an
  error it rolls back, logs the result of the rollback and leaves \<open>err\<close> as it is; with
  none it commits and the result of the commit becomes the error returned.
\<close>

definition deferred ::
  "backend \<Rightarrow> event list option \<Rightarrow> error option \<Rightarrow> call list \<Rightarrow> pushResult \<times> call list" where
  "deferred db events err tr =
     (case err of
        Some e \<Rightarrow> (PushReturn events (Some e), tr @ [Rollback])
      | None \<Rightarrow> (PushReturn events (commit db tr), tr @ [Commit]))"

text \<open>
  \<open>Push\<close>. A panic inside \<open>insertEvents\<close> runs the deferred function too, while \<open>err\<close>
  still holds the nil of the sequence lookup, and goes on to the caller.
\<close>

definition Push :: "backend \<Rightarrow> command list \<Rightarrow> pushResult \<times> call list" where
  "Push db commands =
     (case clientBegin db of
        Some err \<Rightarrow> (PushReturn None (Some err), [Begin])
      | None \<Rightarrow>
          (case latestSequences db [Begin] commands of
             Inl err \<Rightarrow> deferred db None (Some err) [Begin, LatestSequences]
           | Inr sequences \<Rightarrow>
               (case insertEvents db sequences commands [Begin, LatestSequences] of
                  (Panic, tr) \<Rightarrow> (PushPanic, tr @ [Commit])
                | (Errored err, tr) \<Rightarrow> deferred db None (Some err) tr
                | (Returned events, tr) \<Rightarrow>
                    (case handleUniqueConstraints db tr commands of
                       Some err \<Rightarrow>
                         deferred db None (Some err) (tr @ [HandleUniqueConstraints])
                     | None \<Rightarrow>
                         deferred db (Some events) None (tr @ [HandleUniqueConstraints])))))"

section \<open>The in-memory log storage (internal/logstore/mock/inmem.go)\<close>

text \<open>
  A \<open>Record\<close> of the mock with its timestamp \<open>ts\<close>; the struct is declared outside the
  given sources, and only \<open>ts\<close> is read here. \<open>InmemLogStorage\<close> with the two slices
  \<open>Emit\<close> and \<open>QueryUsage\<close> touch; the mutex, the clock and the quota are in the rest of
  the record, which no function below changes.
\<close>

record Record =
  ts :: timestamp

record InmemLogStorage =
  emitted :: "Record list"
  bulks :: "nat list"

text \<open>\<open>Emit\<close>: the error returned (always nil) and the storage after the call.\<close>

definition Emit ::
  "'a InmemLogStorage_scheme \<Rightarrow> Record list \<Rightarrow> error option \<times> 'a InmemLogStorage_scheme" where
  "Emit l bulk =
     (if length bulk = 0 then (None, l)
      else (None,
            (l\<lparr>emitted := foldl (\<lambda>acc r. acc @ [r]) (emitted l) bulk\<rparr>)
              \<lparr>bulks := bulks l @ [length bulk]\<rparr>))"

text \<open>
  \<open>QueryUsage\<close>: the count, the error (always nil) and the storage after the call.
  \<open>t.After(u)\<close> is \<open>u < t\<close>. The count is a \<open>uint64\<close> that is raised once per stored
  record; a Go slice is shorter than \<open>2 ^ 63\<close>, so it never wraps.
\<close>

definition After :: "timestamp \<Rightarrow> timestamp \<Rightarrow> bool" where
  "After t u = (u < t)"

definition QueryUsage ::
  "'a InmemLogStorage_scheme \<Rightarrow> timestamp \<Rightarrow> (nat \<times> error option) \<times> 'a InmemLogStorage_scheme" where
  "QueryUsage l start =
     ((foldl (\<lambda>count r. if After (ts r) start then count + 1 else count) 0 (emitted l), None), l)"

section \<open>Properties of the error classifier\<close>

text \<open>
  C4. \<open>errIsRetryable\<close> is true exactly for an error in whose chain \<open>errors.As\<close> finds
  an SQL state, and that state is "40001" or "CR000". An error with no SQL state to
  extract, or with any other state, is not retryable.
\<close>

theorem errIsRetryable_iff:
  "errIsRetryable err =
     (case errorsAs err of
        None \<Rightarrow> False
      | Some code \<Rightarrow> code = ''40001'' \<or> code = ''CR000'')"
  by (auto simp: errIsRetryable_def errCode_def split: option.splits)

section \<open>Properties of the in-memory log storage\<close>

lemma foldl_snoc: "foldl (\<lambda>acc r. acc @ [r]) xs bulk = xs @ bulk"
  by (induction bulk arbitrary: xs) simp_all

lemma foldl_count:
  "foldl (\<lambda>count r. if P r then count + 1 else count) (n::nat) xs = n + length (filter P xs)"
  by (induction xs arbitrary: n) simp_all

text \<open>
  C9. \<open>Emit\<close> of an empty bulk returns nil and the storage as it was: nothing is added to
  \<open>emitted\<close>, and no \<open>0\<close> is added to \<open>bulks\<close>. \<open>Emit\<close> of a bulk that is not empty
  returns nil, appends the records of the bulk to \<open>emitted\<close> in their order and appends
  the one number \<open>length bulk\<close> to \<open>bulks\<close>; the rest of the storage stays.
\<close>

theorem Emit_effect:
  "Emit l [] = (None, l) \<and>
   (bulk \<noteq> [] \<longrightarrow>
      Emit l bulk = (None, l\<lparr>emitted := emitted l @ bulk, bulks := bulks l @ [length bulk]\<rparr>))"
  by (simp add: Emit_def foldl_snoc)

theorem Emit_effect_witness:
  "Emit \<lparr>emitted = [\<lparr>ts = 1\<rparr>], bulks = [1]\<rparr> [] = (None, \<lparr>emitted = [\<lparr>ts = 1\<rparr>], bulks = [1]\<rparr>) \<and>
   [\<lparr>ts = 5\<rparr>, \<lparr>ts = 3\<rparr>] \<noteq> [] \<and>
   Emit \<lparr>emitted = [\<lparr>ts = 1\<rparr>], bulks = [1]\<rparr> [\<lparr>ts = 5\<rparr>, \<lparr>ts = 3\<rparr>] =
     (None, \<lparr>emitted = [\<lparr>ts = 1\<rparr>, \<lparr>ts = 5\<rparr>, \<lparr>ts = 3\<rparr>], bulks = [1, 2]\<rparr>)"
  using Emit_effect [of "\<lparr>emitted = [\<lparr>ts = 1\<rparr>], bulks = [1]\<rparr>" "[\<lparr>ts = 5\<rparr>, \<lparr>ts = 3\<rparr>]"]
  by simp

text \<open>
  C10. \<open>QueryUsage\<close> returns the number of stored records whose timestamp is after
  \<open>start\<close>, with a nil error, and the storage as it was. A record stamped exactly
  \<open>start\<close> is not counted: storing one more such record leaves the count as it is.
\<close>

theorem QueryUsage_counts:
  "QueryUsage l start = ((length (filter (\<lambda>r. start < ts r) (emitted l)), None), l) \<and>
   fst (fst (QueryUsage (l\<lparr>emitted := emitted l @ [\<lparr>ts = start\<rparr>]\<rparr>) start)) =
     fst (fst (QueryUsage l start))"
  by (simp add: QueryUsage_def After_def foldl_count)

end
